theory Spec2Isabelle
  imports Complex_Main
begin

section \<open>Values decoded from the wire\<close>

text \<open>
  \<^verbatim>\<open>response.json()\<close> yields an arbitrary Python object built from \<^verbatim>\<open>None\<close>, booleans,
  integers, floats, strings, lists and dictionaries. A dictionary is an association list
  read with \<open>map_of\<close> (a decoded dictionary holds every key once). A float is
  represented by the number it denotes; floats are only passed through and compared
  with zero.
\<close>

datatype json =
    JNull
  | JBool bool
  | JInt int
  | JFloat real
  | JStr string
  | JList "json list"
  | JObj "(string \<times> json) list"

type_synonym dict = "(string \<times> json) list"

text \<open>Python's truth value of an object (\<^verbatim>\<open>bool(v)\<close>), as \<^verbatim>\<open>and\<close>, \<^verbatim>\<open>or\<close>, \<^verbatim>\<open>not\<close> and
  \<^verbatim>\<open>if\<close> use it.\<close>

fun py_truthy :: "json \<Rightarrow> bool" where
  "py_truthy JNull = False"
| "py_truthy (JBool b) = b"
| "py_truthy (JInt i) = (i \<noteq> 0)"
| "py_truthy (JFloat r) = (r \<noteq> 0)"
| "py_truthy (JStr s) = (s \<noteq> [])"
| "py_truthy (JList xs) = (xs \<noteq> [])"
| "py_truthy (JObj kvs) = (kvs \<noteq> [])"

text \<open>Python's \<^verbatim>\<open>v == n\<close> for an integer literal \<open>n\<close>: booleans are the integers 0 and 1,
  a float equals the integer of the same value, every other object differs.\<close>

fun py_eq_int :: "json \<Rightarrow> int \<Rightarrow> bool" where
  "py_eq_int (JBool b) n = ((if b then 1 else 0) = n)"
| "py_eq_int (JInt i) n = (i = n)"
| "py_eq_int (JFloat r) n = (r = of_int n)"
| "py_eq_int JNull n = False"
| "py_eq_int (JStr s) n = False"
| "py_eq_int (JList xs) n = False"
| "py_eq_int (JObj kvs) n = False"


text \<open>\<^verbatim>\<open>d.get(k, default)\<close>; \<^verbatim>\<open>d.get(k)\<close> is \<open>dict_get d k JNull\<close>.\<close>

definition dict_get :: "dict \<Rightarrow> string \<Rightarrow> json \<Rightarrow> json" where
  "dict_get d k dflt = (case map_of d k of None \<Rightarrow> dflt | Some v \<Rightarrow> v)"

text \<open>The rendering of an object inside an f-string (\<^verbatim>\<open>str(v)\<close>): \<^verbatim>\<open>None\<close> prints as
  the four letters \<^verbatim>\<open>None\<close>, a string as itself. The renderings of the other objects
  belong to the Python runtime and are the parameter \<open>fmt\<close>.\<close>

definition py_str :: "(json \<Rightarrow> string) \<Rightarrow> json \<Rightarrow> string" where
  "py_str fmt v = (case v of JNull \<Rightarrow> ''None'' | JStr s \<Rightarrow> s | _ \<Rightarrow> fmt v)"

section \<open>exceptions.py\<close>

datatype error_kind = AuthenticationError | APIError | OrderError | PositionError

text \<open>
  \<open>TopStepXError kind message error_code\<close> is an exception of the class \<open>kind\<close> with
  its two attributes. The other constructors are the exceptions the library code can
  raise besides its own: whatever httpx raises (a connection failure,
  \<^verbatim>\<open>raise_for_status\<close>, an undecodable body), \<^verbatim>\<open>AttributeError\<close> when the decoded body
  has no \<^verbatim>\<open>get\<close> (it is not a dictionary), and \<^verbatim>\<open>KeyError\<close> for \<^verbatim>\<open>data["token"]\<close>.
\<close>

datatype error =
    TopStepXError error_kind json json
  | HttpxError string
  | AttributeError
  | KeyError string

section \<open>models.py\<close>

datatype OrderType = LIMIT | MARKET | STOP | TRAILING_STOP | JOIN_BID | JOIN_ASK

fun OrderType_int :: "OrderType \<Rightarrow> int" where
  "OrderType_int LIMIT = 1"
| "OrderType_int MARKET = 2"
| "OrderType_int STOP = 4"
| "OrderType_int TRAILING_STOP = 5"
| "OrderType_int JOIN_BID = 6"
| "OrderType_int JOIN_ASK = 7"

datatype OrderSide = BUY | SELL

fun OrderSide_int :: "OrderSide \<Rightarrow> int" where
  "OrderSide_int BUY = 0"
| "OrderSide_int SELL = 1"

section \<open>The network and the clock\<close>

text \<open>
  Every method performs its HTTP exchanges through httpx. A request is recorded as it
  is sent; what comes back is an input of the model. For the JSON endpoints the reply
  is either an exception of httpx or the decoded body; for the validation endpoint it
  is an exception or the status code. Instants (\<^verbatim>\<open>datetime.now()\<close>) are counted in
  microseconds, the resolution of \<^verbatim>\<open>datetime\<close>, as unbounded integers: the bounds of
  \<^verbatim>\<open>datetime\<close> (the years 1 to 9999) are left out.
\<close>

record request =
  url :: string
  json_body :: "json option"
  headers :: "(string \<times> string) list"

datatype reply = Raised string | Body json

datatype status_reply = PostRaised string | Status nat

type_synonym instant = int

definition timedelta_hours :: "int \<Rightarrow> int" where
  "timedelta_hours h = h * 3600000000"

definition timedelta_minutes :: "int \<Rightarrow> int" where
  "timedelta_minutes m = m * 60000000"

section \<open>auth.py\<close>

definition BASE_URL :: string where
  "BASE_URL = ''https://api.topstepx.com''"

definition TOKEN_VALIDITY_HOURS :: int where
  "TOKEN_VALIDITY_HOURS = 24"

definition TOKEN_REFRESH_MARGIN_MINUTES :: int where
  "TOKEN_REFRESH_MARGIN_MINUTES = 5"

text \<open>The fields of a \<^verbatim>\<open>TopStepXAuth\<close> object. \<open>token\<close> holds whatever the login
  response delivered (\<open>JNull\<close> is Python's \<^verbatim>\<open>None\<close>).\<close>

record TopStepXAuth =
  username :: string
  api_key :: string
  token :: json
  token_expires :: "instant option"

text \<open>\<^verbatim>\<open>TopStepXAuth.__init__\<close>\<close>

definition init :: "string \<Rightarrow> string \<Rightarrow> TopStepXAuth" where
  "init u k = \<lparr>username = u, api_key = k, token = JNull, token_expires = None\<rparr>"

text \<open>The authentication object together with the requests sent so far.\<close>

record world =
  auth :: TopStepXAuth
  sent :: "request list"

definition post :: "request \<Rightarrow> world \<Rightarrow> world" where
  "post r w = w\<lparr>sent := sent w @ [r]\<rparr>"

text \<open>\<^verbatim>\<open>TopStepXAuth._is_token_expired\<close>; \<open>now\<close> is the value of \<^verbatim>\<open>datetime.now()\<close>.\<close>

definition is_token_expired :: "TopStepXAuth \<Rightarrow> instant \<Rightarrow> bool" where
  "is_token_expired a now =
     (case token_expires a of
        None \<Rightarrow> True
      | Some e \<Rightarrow> now \<ge> e - timedelta_minutes TOKEN_REFRESH_MARGIN_MINUTES)"

text \<open>\<^verbatim>\<open>TopStepXAuth.get_headers\<close>\<close>

definition get_headers :: "(json \<Rightarrow> string) \<Rightarrow> TopStepXAuth \<Rightarrow> (string \<times> string) list" where
  "get_headers fmt a = [(''Authorization'', ''Bearer '' @ py_str fmt (token a))]"

text \<open>The test every method applies to the decoded body:
  \<^verbatim>\<open>data.get("success") and data.get("errorCode") == 0\<close>.\<close>

definition envelope_success :: "dict \<Rightarrow> bool" where
  "envelope_success d =
     (py_truthy (dict_get d ''success'' JNull) \<and> py_eq_int (dict_get d ''errorCode'' JNull) 0)"

text \<open>The exception every method raises otherwise:
  \<^verbatim>\<open>Kind(message=data.get("errorMessage", "Unknown error"), error_code=data.get("errorCode"))\<close>.\<close>

definition envelope_error :: "error_kind \<Rightarrow> dict \<Rightarrow> error" where
  "envelope_error kind d =
     TopStepXError kind (dict_get d ''errorMessage'' (JStr ''Unknown error''))
       (dict_get d ''errorCode'' JNull)"

text \<open>The request \<^verbatim>\<open>_login\<close> posts.\<close>

definition login_request :: "TopStepXAuth \<Rightarrow> request" where
  "login_request a =
     \<lparr>url = BASE_URL @ ''/api/Auth/loginKey'',
      json_body = Some (JObj [(''userName'', JStr (username a)), (''apiKey'', JStr (api_key a))]),
      headers = []\<rparr>"

text \<open>\<^verbatim>\<open>TopStepXAuth._login\<close>. \<open>r\<close> is the reply to the login request and \<open>now\<close> the
  value of \<^verbatim>\<open>datetime.now()\<close> read after it. The token is assigned before the expiry;
  a missing \<^verbatim>\<open>"token"\<close> key raises before either assignment.\<close>

definition login :: "world \<Rightarrow> reply \<Rightarrow> instant \<Rightarrow> (error + unit) \<times> world" where
  "login w r now =
     (let w1 = post (login_request (auth w)) w
      in case r of
           Raised e \<Rightarrow> (Inl (HttpxError e), w1)
         | Body data \<Rightarrow>
             (case data of
                JObj d \<Rightarrow>
                  if envelope_success d then
                    (case map_of d ''token'' of
                       None \<Rightarrow> (Inl (KeyError ''token''), w1)
                     | Some t \<Rightarrow>
                         (Inr (),
                          w1\<lparr>auth := (auth w1)\<lparr>token := t,
                                 token_expires :=
                                   Some (now + timedelta_hours TOKEN_VALIDITY_HOURS)\<rparr>\<rparr>))
                  else (Inl (envelope_error AuthenticationError d), w1)
              | _ \<Rightarrow> (Inl AttributeError, w1)))"

text \<open>\<^verbatim>\<open>TopStepXAuth.get_valid_token\<close>. \<open>now\<close> is the clock read by
  \<^verbatim>\<open>_is_token_expired\<close>; \<open>r\<close> and \<open>now'\<close> are consumed by \<^verbatim>\<open>_login\<close> when it runs.\<close>

definition get_valid_token ::
  "world \<Rightarrow> instant \<Rightarrow> reply \<Rightarrow> instant \<Rightarrow> (error + json) \<times> world" where
  "get_valid_token w now r now' =
     (if \<not> py_truthy (token (auth w)) \<or> is_token_expired (auth w) now then
        (case login w r now' of
           (Inl e, w') \<Rightarrow> (Inl e, w')
         | (Inr u, w') \<Rightarrow> (Inr (token (auth w')), w'))
      else (Inr (token (auth w)), w))"

text \<open>\<^verbatim>\<open>TopStepXAuth.validate_token\<close>\<close>

definition validate_token ::
  "(json \<Rightarrow> string) \<Rightarrow> world \<Rightarrow> status_reply \<Rightarrow> (error + bool) \<times> world" where
  "validate_token fmt w r =
     (if \<not> py_truthy (token (auth w)) then (Inr False, w)
      else
        (let w1 = post \<lparr>url = BASE_URL @ ''/api/Auth/validate'',
                        json_body = None,
                        headers = get_headers fmt (auth w)\<rparr> w
         in case r of
              PostRaised e \<Rightarrow> (Inl (HttpxError e), w1)
            | Status c \<Rightarrow> (Inr (c = 200), w1)))"

section \<open>client.py\<close>

text \<open>
  Every method of \<^verbatim>\<open>TopStepXClient\<close> is the same block around its own endpoint path,
  request payload, exception class and result: \<^verbatim>\<open>await self.auth.get_valid_token()\<close>,
  the POST with \<^verbatim>\<open>headers=self.auth.get_headers()\<close>, \<^verbatim>\<open>raise_for_status()\<close>,
  \<^verbatim>\<open>data = response.json()\<close>, then the test of the body. \<open>call_endpoint\<close> is that
  block; \<open>result\<close> is what the method returns from the body (\<^verbatim>\<open>data.get("accounts", [])\<close>,
  or \<^verbatim>\<open>data\<close> itself). \<open>lr\<close> and \<open>now'\<close> are the login reply and clock used when
  \<^verbatim>\<open>get_valid_token\<close> logs in, \<open>r\<close> is the reply to the method's own request.
\<close>

definition call_endpoint ::
  "(json \<Rightarrow> string) \<Rightarrow> world \<Rightarrow> instant \<Rightarrow> reply \<Rightarrow> instant \<Rightarrow>
   string \<Rightarrow> json \<Rightarrow> error_kind \<Rightarrow> (dict \<Rightarrow> json) \<Rightarrow> reply \<Rightarrow> (error + json) \<times> world" where
  "call_endpoint fmt w now lr now' path payload kind result r =
     (case get_valid_token w now lr now' of
        (Inl e, w1) \<Rightarrow> (Inl e, w1)
      | (Inr t, w1) \<Rightarrow>
          (let w2 = post \<lparr>url = BASE_URL @ path,
                          json_body = Some payload,
                          headers = get_headers fmt (auth w1)\<rparr> w1
           in case r of
                Raised e \<Rightarrow> (Inl (HttpxError e), w2)
              | Body data \<Rightarrow>
                  (case data of
                     JObj d \<Rightarrow>
                       if envelope_success d then (Inr (result d), w2)
                       else (Inl (envelope_error kind d), w2)
                   | _ \<Rightarrow> (Inl AttributeError, w2))))"

text \<open>An optional argument: \<^verbatim>\<open>None\<close> stays \<^verbatim>\<open>None\<close> in the payload.\<close>

fun opt_json :: "('a \<Rightarrow> json) \<Rightarrow> 'a option \<Rightarrow> json" where
  "opt_json f None = JNull"
| "opt_json f (Some x) = f x"

definition get_active_accounts ::
  "(json \<Rightarrow> string) \<Rightarrow> world \<Rightarrow> instant \<Rightarrow> reply \<Rightarrow> instant \<Rightarrow> reply \<Rightarrow> (error + json) \<times> world" where
  "get_active_accounts fmt w now lr now' r =
     call_endpoint fmt w now lr now' ''/api/Account/search''
       (JObj [(''onlyActiveAccounts'', JBool True)])
       APIError (\<lambda>d. dict_get d ''accounts'' (JList [])) r"

definition get_available_contracts ::
  "(json \<Rightarrow> string) \<Rightarrow> world \<Rightarrow> instant \<Rightarrow> reply \<Rightarrow> instant \<Rightarrow> bool \<Rightarrow> reply \<Rightarrow>
   (error + json) \<times> world" where
  "get_available_contracts fmt w now lr now' live r =
     call_endpoint fmt w now lr now' ''/api/Contract/available''
       (JObj [(''live'', JBool live)])
       APIError (\<lambda>d. dict_get d ''contracts'' (JList [])) r"

text \<open>\<^verbatim>\<open>order_data\<close> of \<^verbatim>\<open>place_order\<close>\<close>

definition order_data ::
  "int \<Rightarrow> string \<Rightarrow> OrderType \<Rightarrow> OrderSide \<Rightarrow> int \<Rightarrow> real option \<Rightarrow> real option \<Rightarrow>
   real option \<Rightarrow> string option \<Rightarrow> int option \<Rightarrow> dict" where
  "order_data account_id contract_id order_type side size' limit_price stop_price trail_price
     custom_tag linked_order_id =
     [(''accountId'', JInt account_id),
      (''contractId'', JStr contract_id),
      (''type'', JInt (OrderType_int order_type)),
      (''side'', JInt (OrderSide_int side)),
      (''size'', JInt size'),
      (''limitPrice'', opt_json JFloat limit_price),
      (''stopPrice'', opt_json JFloat stop_price),
      (''trailPrice'', opt_json JFloat trail_price),
      (''customTag'', opt_json JStr custom_tag),
      (''linkedOrderId'', opt_json JInt linked_order_id)]"

definition place_order ::
  "(json \<Rightarrow> string) \<Rightarrow> world \<Rightarrow> instant \<Rightarrow> reply \<Rightarrow> instant \<Rightarrow>
   int \<Rightarrow> string \<Rightarrow> OrderType \<Rightarrow> OrderSide \<Rightarrow> int \<Rightarrow> real option \<Rightarrow> real option \<Rightarrow>
   real option \<Rightarrow> string option \<Rightarrow> int option \<Rightarrow> reply \<Rightarrow> (error + json) \<times> world" where
  "place_order fmt w now lr now' account_id contract_id order_type side size' limit_price
     stop_price trail_price custom_tag linked_order_id r =
     call_endpoint fmt w now lr now' ''/api/Order/place''
       (JObj (order_data account_id contract_id order_type side size' limit_price stop_price
                trail_price custom_tag linked_order_id))
       OrderError JObj r"

text \<open>\<^verbatim>\<open>payload\<close> of \<^verbatim>\<open>search_orders\<close> and of \<^verbatim>\<open>search_trades\<close> (the two methods build
  it with the same statements). \<open>isoformat\<close> is \<^verbatim>\<open>datetime.isoformat\<close> of the standard
  library, over whatever represents a \<^verbatim>\<open>datetime\<close>. \<^verbatim>\<open>if end_timestamp:\<close> tests the truth
  value of the argument: \<^verbatim>\<open>None\<close> is false and every \<^verbatim>\<open>datetime\<close> object is true.\<close>

definition search_payload :: "('dt \<Rightarrow> string) \<Rightarrow> int \<Rightarrow> 'dt \<Rightarrow> 'dt option \<Rightarrow> dict" where
  "search_payload isoformat account_id start_timestamp end_timestamp =
     (let payload = [(''accountId'', JInt account_id),
                     (''startTimestamp'', JStr (isoformat start_timestamp))]
      in case end_timestamp of
           None \<Rightarrow> payload
         | Some e \<Rightarrow> payload @ [(''endTimestamp'', JStr (isoformat e))])"

definition search_orders ::
  "(json \<Rightarrow> string) \<Rightarrow> ('dt \<Rightarrow> string) \<Rightarrow> world \<Rightarrow> instant \<Rightarrow> reply \<Rightarrow> instant \<Rightarrow>
   int \<Rightarrow> 'dt \<Rightarrow> 'dt option \<Rightarrow> reply \<Rightarrow> (error + json) \<times> world" where
  "search_orders fmt isoformat w now lr now' account_id start_timestamp end_timestamp r =
     call_endpoint fmt w now lr now' ''/api/Order/search''
       (JObj (search_payload isoformat account_id start_timestamp end_timestamp))
       OrderError (\<lambda>d. dict_get d ''orders'' (JList [])) r"

definition get_open_orders ::
  "(json \<Rightarrow> string) \<Rightarrow> world \<Rightarrow> instant \<Rightarrow> reply \<Rightarrow> instant \<Rightarrow> int \<Rightarrow> reply \<Rightarrow>
   (error + json) \<times> world" where
  "get_open_orders fmt w now lr now' account_id r =
     call_endpoint fmt w now lr now' ''/api/Order/searchOpen''
       (JObj [(''accountId'', JInt account_id)])
       OrderError (\<lambda>d. dict_get d ''orders'' (JList [])) r"

definition cancel_order ::
  "(json \<Rightarrow> string) \<Rightarrow> world \<Rightarrow> instant \<Rightarrow> reply \<Rightarrow> instant \<Rightarrow> int \<Rightarrow> int \<Rightarrow> reply \<Rightarrow>
   (error + json) \<times> world" where
  "cancel_order fmt w now lr now' account_id order_id r =
     call_endpoint fmt w now lr now' ''/api/Order/cancel''
       (JObj [(''accountId'', JInt account_id), (''orderId'', JInt order_id)])
       OrderError JObj r"

text \<open>\<^verbatim>\<open>payload\<close> of \<^verbatim>\<open>modify_order\<close>\<close>

definition modify_payload ::
  "int \<Rightarrow> int \<Rightarrow> int option \<Rightarrow> real option \<Rightarrow> real option \<Rightarrow> real option \<Rightarrow> dict" where
  "modify_payload account_id order_id size' limit_price stop_price trail_price =
     [(''accountId'', JInt account_id),
      (''orderId'', JInt order_id),
      (''size'', opt_json JInt size'),
      (''limitPrice'', opt_json JFloat limit_price),
      (''stopPrice'', opt_json JFloat stop_price),
      (''trailPrice'', opt_json JFloat trail_price)]"

definition modify_order ::
  "(json \<Rightarrow> string) \<Rightarrow> world \<Rightarrow> instant \<Rightarrow> reply \<Rightarrow> instant \<Rightarrow>
   int \<Rightarrow> int \<Rightarrow> int option \<Rightarrow> real option \<Rightarrow> real option \<Rightarrow> real option \<Rightarrow> reply \<Rightarrow>
   (error + json) \<times> world" where
  "modify_order fmt w now lr now' account_id order_id size' limit_price stop_price trail_price r =
     call_endpoint fmt w now lr now' ''/api/Order/modify''
       (JObj (modify_payload account_id order_id size' limit_price stop_price trail_price))
       OrderError JObj r"

definition get_open_positions ::
  "(json \<Rightarrow> string) \<Rightarrow> world \<Rightarrow> instant \<Rightarrow> reply \<Rightarrow> instant \<Rightarrow> int \<Rightarrow> reply \<Rightarrow>
   (error + json) \<times> world" where
  "get_open_positions fmt w now lr now' account_id r =
     call_endpoint fmt w now lr now' ''/api/Position/searchOpen''
       (JObj [(''accountId'', JInt account_id)])
       PositionError (\<lambda>d. dict_get d ''positions'' (JList [])) r"

definition close_position ::
  "(json \<Rightarrow> string) \<Rightarrow> world \<Rightarrow> instant \<Rightarrow> reply \<Rightarrow> instant \<Rightarrow> int \<Rightarrow> string \<Rightarrow> reply \<Rightarrow>
   (error + json) \<times> world" where
  "close_position fmt w now lr now' account_id contract_id r =
     call_endpoint fmt w now lr now' ''/api/Position/closeContract''
       (JObj [(''accountId'', JInt account_id), (''contractId'', JStr contract_id)])
       PositionError JObj r"

definition partial_close_position ::
  "(json \<Rightarrow> string) \<Rightarrow> world \<Rightarrow> instant \<Rightarrow> reply \<Rightarrow> instant \<Rightarrow> int \<Rightarrow> string \<Rightarrow> int \<Rightarrow>
   reply \<Rightarrow> (error + json) \<times> world" where
  "partial_close_position fmt w now lr now' account_id contract_id size' r =
     call_endpoint fmt w now lr now' ''/api/Position/partialCloseContract''
       (JObj [(''accountId'', JInt account_id), (''contractId'', JStr contract_id),
              (''size'', JInt size')])
       PositionError JObj r"

definition search_trades ::
  "(json \<Rightarrow> string) \<Rightarrow> ('dt \<Rightarrow> string) \<Rightarrow> world \<Rightarrow> instant \<Rightarrow> reply \<Rightarrow> instant \<Rightarrow>
   int \<Rightarrow> 'dt \<Rightarrow> 'dt option \<Rightarrow> reply \<Rightarrow> (error + json) \<times> world" where
  "search_trades fmt isoformat w now lr now' account_id start_timestamp end_timestamp r =
     call_endpoint fmt w now lr now' ''/api/Trade/search''
       (JObj (search_payload isoformat account_id start_timestamp end_timestamp))
       APIError (\<lambda>d. dict_get d ''trades'' (JList [])) r"

section \<open>Notions of the specification\<close>

text \<open>
  The response envelope of the specification is a body whose \<^verbatim>\<open>success\<close> is a boolean and
  whose \<^verbatim>\<open>errorCode\<close> is an integer. \<open>typed_envelope\<close> asks this of the two keys where
  they are present, so that it also covers a body that lacks one of them.
\<close>

fun is_JBool :: "json \<Rightarrow> bool" where
  "is_JBool (JBool b) = True"
| "is_JBool v = False"

fun is_JInt :: "json \<Rightarrow> bool" where
  "is_JInt (JInt i) = True"
| "is_JInt v = False"

definition typed_envelope :: "dict \<Rightarrow> bool" where
  "typed_envelope d =
     ((case map_of d ''success'' of None \<Rightarrow> True | Some v \<Rightarrow> is_JBool v) \<and>
      (case map_of d ''errorCode'' of None \<Rightarrow> True | Some v \<Rightarrow> is_JInt v))"

text \<open>The specification's words: \<^verbatim>\<open>success == true && errorCode == 0\<close>.\<close>

definition spec_success :: "dict \<Rightarrow> bool" where
  "spec_success d =
     (map_of d ''success'' = Some (JBool True) \<and> map_of d ''errorCode'' = Some (JInt 0))"



text \<open>The error by the keys of the body: the message is whatever is stored under
  \<^verbatim>\<open>errorMessage\<close>, \<^verbatim>\<open>None\<close> and the empty string included, and \<^verbatim>\<open>"Unknown error"\<close> only
  when the key is missing; the code is whatever is stored under \<^verbatim>\<open>errorCode\<close>, and
  \<^verbatim>\<open>None\<close> when the key is missing.\<close>

definition keyed_error :: "error_kind \<Rightarrow> dict \<Rightarrow> error" where
  "keyed_error kind d =
     TopStepXError kind
       (case map_of d ''errorMessage'' of None \<Rightarrow> JStr ''Unknown error'' | Some m \<Rightarrow> m)
       (case map_of d ''errorCode'' of None \<Rightarrow> JNull | Some c \<Rightarrow> c)"

text \<open>The payload on success, the error by the keys otherwise.\<close>

definition keyed_unwrap :: "error_kind \<Rightarrow> json \<Rightarrow> dict \<Rightarrow> error + json" where
  "keyed_unwrap kind payload d =
     (if spec_success d then Inr payload else Inl (keyed_error kind d))"

text \<open>
  The states reachable from a fresh \<^verbatim>\<open>TopStepXAuth\<close> object by its methods and by the
  methods of the client, whatever the clock and the network answer, as long as the
  \<^verbatim>\<open>token\<close> field of every login reply that has one satisfies \<open>P\<close>. \<^verbatim>\<open>get_headers\<close> and
  \<^verbatim>\<open>_is_token_expired\<close> return a value and leave the object as it is, so they add no
  state.
\<close>

definition any_token :: "json \<Rightarrow> bool" where
  "any_token t = True"

definition token_not_null :: "json \<Rightarrow> bool" where
  "token_not_null t = (t \<noteq> JNull)"

definition token_field :: "(json \<Rightarrow> bool) \<Rightarrow> reply \<Rightarrow> bool" where
  "token_field P r =
     (case r of
        Raised e \<Rightarrow> True
      | Body data \<Rightarrow>
          (case data of
             JObj d \<Rightarrow> (case map_of d ''token'' of None \<Rightarrow> True | Some t \<Rightarrow> P t)
           | _ \<Rightarrow> True))"

inductive reachable :: "(json \<Rightarrow> bool) \<Rightarrow> world \<Rightarrow> bool" for P :: "json \<Rightarrow> bool" where
  reach_init: "reachable P \<lparr>auth = init u k, sent = []\<rparr>"
| reach_get_valid_token:
    "reachable P w \<Longrightarrow> token_field P r \<Longrightarrow> reachable P (snd (get_valid_token w now r now'))"
| reach_login:
    "reachable P w \<Longrightarrow> token_field P r \<Longrightarrow> reachable P (snd (login w r now))"
| reach_validate_token:
    "reachable P w \<Longrightarrow> reachable P (snd (validate_token fmt w sr))"
| reach_call_endpoint:
    "reachable P w \<Longrightarrow> token_field P lr \<Longrightarrow>
     reachable P (snd (call_endpoint fmt w now lr now' path payload kind result r))"

section \<open>Example values\<close>

text \<open>A session holding the token \<^verbatim>\<open>abc\<close> until one day after instant 0, before any
  request.\<close>

definition ex_world :: world where
  "ex_world = \<lparr>auth = \<lparr>username = ''user'', api_key = ''key'', token = JStr ''abc'',
                        token_expires = Some 86400000000\<rparr>,
               sent = []\<rparr>"

text \<open>A session fresh from \<^verbatim>\<open>TopStepXAuth("user", "key")\<close>.\<close>

definition ex_fresh :: world where
  "ex_fresh = \<lparr>auth = init ''user'' ''key'', sent = []\<rparr>"



definition ex_bad_key :: dict where
  "ex_bad_key = [(''success'', JBool False), (''errorCode'', JInt 7),
                 (''errorMessage'', JStr ''bad key'')]"

definition ex_login_ok :: dict where
  "ex_login_ok = [(''success'', JBool True), (''errorCode'', JInt 0), (''token'', JStr ''abc'')]"

definition ex_fmt :: "json \<Rightarrow> string" where
  "ex_fmt v = ''?''"

text \<open>A body without \<^verbatim>\<open>errorCode\<close> and \<^verbatim>\<open>errorMessage\<close> that holds the accounts.\<close>

definition ex_no_code :: dict where
  "ex_no_code = [(''success'', JBool True), (''accounts'', JList [JObj [(''id'', JInt 1)]])]"

definition ex_isoformat :: "unit \<Rightarrow> string" where
  "ex_isoformat u = ''2025-01-01T00:00:00''"

definition ex_null_token :: dict where
  "ex_null_token = [(''success'', JBool True), (''errorCode'', JInt 0), (''token'', JNull)]"

definition ex_empty_token :: dict where
  "ex_empty_token = [(''success'', JBool True), (''errorCode'', JInt 0), (''token'', JStr [])]"

text \<open>A session whose token is the empty string, with an expiry one day after instant 0.\<close>

definition ex_empty_world :: world where
  "ex_empty_world = \<lparr>auth = \<lparr>username = ''user'', api_key = ''key'', token = JStr [],
                              token_expires = Some 86400000000\<rparr>,
                     sent = []\<rparr>"

text \<open>A session with an expiry ten minutes after instant 0 and no token.\<close>

definition ex_no_token :: TopStepXAuth where
  "ex_no_token = \<lparr>username = ''user'', api_key = ''key'', token = JNull,
                   token_expires = Some 600000000\<rparr>"

section \<open>Shared lemmas\<close>

lemma is_JBool_truthy: "is_JBool v \<Longrightarrow> py_truthy v = (v = JBool True)"
  by (cases v) auto

lemma is_JInt_eq_zero: "is_JInt v \<Longrightarrow> py_eq_int v 0 = (v = JInt 0)"
  by (cases v) auto

text \<open>On a typed envelope the test of the code is the test of the specification.\<close>

lemma envelope_success_typed:
  "typed_envelope d \<Longrightarrow> envelope_success d = spec_success d"
  unfolding typed_envelope_def envelope_success_def spec_success_def dict_get_def
  by (auto split: option.splits simp: is_JBool_truthy is_JInt_eq_zero)

lemma spec_success_envelope_success: "spec_success d \<Longrightarrow> envelope_success d"
  by (simp add: spec_success_def envelope_success_def dict_get_def)

lemma envelope_error_keyed: "envelope_error kind d = keyed_error kind d"
  by (simp add: envelope_error_def keyed_error_def dict_get_def)



lemma absent_key_fails:
  "map_of d ''success'' = None \<or> map_of d ''errorCode'' = None \<Longrightarrow> \<not> envelope_success d"
  by (auto simp: envelope_success_def dict_get_def)

lemma call_endpoint_body:
  assumes "fst (get_valid_token w now lr now') = Inr t"
  shows "fst (call_endpoint fmt w now lr now' path payload kind result (Body (JObj d))) =
         (if envelope_success d then Inr (result d) else Inl (envelope_error kind d))"
  using assms
  by (cases "get_valid_token w now lr now'") (auto simp: call_endpoint_def Let_def)


text \<open>The payload comes back exactly on the success of the specification.\<close>

lemma keyed_unwrap_payload_iff: "(keyed_unwrap kind p d = Inr p) = spec_success d"
  by (simp add: keyed_unwrap_def)

text \<open>A successful body without \<^verbatim>\<open>token\<close>: \<^verbatim>\<open>data["token"]\<close> raises and nothing is assigned.\<close>

lemma login_missing_token:
  assumes "envelope_success d" and "map_of d ''token'' = None"
  shows "login w (Body (JObj d)) now = (Inl (KeyError ''token''), post (login_request (auth w)) w)"
  using assms by (simp add: login_def Let_def)

lemma ex_world_token:
  "fst (get_valid_token ex_world 0 (Raised []) 0) = Inr (JStr ''abc'')"
  by (simp add: get_valid_token_def is_token_expired_def ex_world_def timedelta_minutes_def
      TOKEN_REFRESH_MARGIN_MINUTES_def)

lemma call_endpoint_fails:
  assumes "fst (get_valid_token w now lr now') = Inr t" and "\<not> envelope_success d"
  shows "fst (call_endpoint fmt w now lr now' path payload kind result (Body (JObj d))) =
         Inl (keyed_error kind d)"
  using assms by (simp add: call_endpoint_body envelope_error_keyed)

lemma call_endpoint_sent:
  assumes "fst (get_valid_token w now lr now') = Inr t"
  shows "sent (snd (call_endpoint fmt w now lr now' path payload kind result r)) =
         sent (snd (get_valid_token w now lr now')) @
           [\<lparr>url = BASE_URL @ path, json_body = Some payload,
             headers = get_headers fmt (auth (snd (get_valid_token w now lr now')))\<rparr>]"
  using assms
  by (cases "get_valid_token w now lr now'")
    (auto simp: call_endpoint_def Let_def post_def split: reply.splits json.splits)

text \<open>What the methods do to the authentication object.\<close>

lemma login_auth:
  "auth (snd (login w r now)) = auth w \<or>
   (\<exists>d t. r = Body (JObj d) \<and> envelope_success d \<and> map_of d ''token'' = Some t \<and>
      fst (login w r now) = Inr () \<and>
      auth (snd (login w r now)) =
        (auth w)\<lparr>token := t, token_expires := Some (now + timedelta_hours TOKEN_VALIDITY_HOURS)\<rparr>)"
  by (auto simp: login_def Let_def post_def split: reply.splits json.splits option.splits)

lemma get_valid_token_auth:
  "auth (snd (get_valid_token w now r now')) = auth w \<or>
   auth (snd (get_valid_token w now r now')) = auth (snd (login w r now'))"
  by (auto simp: get_valid_token_def split: prod.splits sum.splits)

lemma validate_token_auth: "auth (snd (validate_token fmt w sr)) = auth w"
  by (auto simp: validate_token_def Let_def post_def split: status_reply.splits)

lemma call_endpoint_auth:
  "auth (snd (call_endpoint fmt w now lr now' path payload kind result r)) =
   auth (snd (get_valid_token w now lr now'))"
  by (auto simp: call_endpoint_def Let_def post_def
      split: prod.splits sum.splits reply.splits json.splits)

lemma login_keeps_expiry:
  "token (auth w) \<noteq> JNull \<longrightarrow> token_expires (auth w) \<noteq> None \<Longrightarrow>
   token (auth (snd (login w r now))) \<noteq> JNull \<longrightarrow>
   token_expires (auth (snd (login w r now))) \<noteq> None"
  using login_auth [of w r now] by auto

lemma login_keeps_both:
  assumes "token_field token_not_null r"
    and "(token (auth w) \<noteq> JNull) = (token_expires (auth w) \<noteq> None)"
  shows "(token (auth (snd (login w r now))) \<noteq> JNull) =
         (token_expires (auth (snd (login w r now))) \<noteq> None)"
  using login_auth [of w r now] assms
  by (auto simp: token_field_def token_not_null_def)

lemma reachable_token_expiry:
  "reachable P w \<Longrightarrow> token (auth w) \<noteq> JNull \<longrightarrow> token_expires (auth w) \<noteq> None"
proof (induction rule: reachable.induct)
  case (reach_init u k)
  show ?case by (simp add: init_def)
next
  case (reach_get_valid_token w r now now')
  then show ?case
    using get_valid_token_auth [of w now r now'] login_keeps_expiry [of w r now'] by auto
next
  case (reach_login w r now)
  then show ?case using login_keeps_expiry [of w r now] by auto
next
  case (reach_validate_token w fmt sr)
  then show ?case by (simp add: validate_token_auth)
next
  case (reach_call_endpoint w lr fmt now now' path payload kind result r)
  then show ?case
    using get_valid_token_auth [of w now lr now'] login_keeps_expiry [of w lr now']
    by (auto simp: call_endpoint_auth)
qed

lemma reachable_token_both:
  "reachable token_not_null w \<Longrightarrow>
   (token (auth w) \<noteq> JNull) = (token_expires (auth w) \<noteq> None)"
proof (induction rule: reachable.induct)
  case (reach_init u k)
  show ?case by (simp add: init_def)
next
  case (reach_get_valid_token w r now now')
  then show ?case
    using get_valid_token_auth [of w now r now'] login_keeps_both [of r w now'] by auto
next
  case (reach_login w r now)
  then show ?case using login_keeps_both [of r w now] by auto
next
  case (reach_validate_token w fmt sr)
  then show ?case by (simp add: validate_token_auth)
next
  case (reach_call_endpoint w lr fmt now now' path payload kind result r)
  then show ?case
    using get_valid_token_auth [of w now lr now'] login_keeps_both [of lr w now']
    by (auto simp: call_endpoint_auth)
qed

lemma valid_iff:
  "(\<not> is_token_expired a now) = (\<exists>e. token_expires a = Some e \<and> now < e - 5 * 60000000)"
  by (cases "token_expires a")
    (auto simp: is_token_expired_def timedelta_minutes_def TOKEN_REFRESH_MARGIN_MINUTES_def)

lemma get_valid_token_valid:
  assumes "py_truthy (token (auth w))" and "token_expires (auth w) = Some e"
    and "now < e - 5 * 60000000"
  shows "get_valid_token w now r now' = (Inr (token (auth w)), w)"
  using assms valid_iff [of "auth w" now] by (simp add: get_valid_token_def)

lemma get_valid_token_login:
  assumes "\<not> py_truthy (token (auth w)) \<or> is_token_expired (auth w) now"
    and "spec_success d" and "map_of d ''token'' = Some t"
  shows "get_valid_token w now (Body (JObj d)) now' =
         (Inr t, \<lparr>auth = (auth w)\<lparr>token := t, token_expires := Some (now' + 24 * 3600000000)\<rparr>,
                  sent = sent w @ [login_request (auth w)]\<rparr>)"
  using assms spec_success_envelope_success [of d]
  by (simp add: get_valid_token_def login_def Let_def post_def timedelta_hours_def
      TOKEN_VALIDITY_HOURS_def)

section \<open>The request protocol\<close>




text \<open>
  C10. A body in which the \<^verbatim>\<open>success\<close> key is absent, or the \<^verbatim>\<open>errorCode\<close> key is absent,
  is a failure for \<^verbatim>\<open>_login\<close> and for every method of the client (once its token was
  obtained), whatever else the body holds, the expected payload field included: the
  method raises its error kind with \<^verbatim>\<open>data.get("errorMessage", "Unknown error")\<close> as
  message and \<^verbatim>\<open>data.get("errorCode")\<close> as code. The message is \<^verbatim>\<open>"Unknown error"\<close> when
  \<^verbatim>\<open>errorMessage\<close> is absent too, and the code is \<^verbatim>\<open>None\<close> when \<^verbatim>\<open>errorCode\<close> is the absent
  key.
\<close>

theorem absent_keys_fail:
  assumes "map_of d ''success'' = None \<or> map_of d ''errorCode'' = None"
  shows
    "fst (login w (Body (JObj d)) now') = Inl (keyed_error AuthenticationError d) \<and>
     (fst (get_valid_token w now lr now') = Inr t \<longrightarrow>
        fst (get_active_accounts fmt w now lr now' (Body (JObj d))) =
          Inl (keyed_error APIError d) \<and>
        fst (get_available_contracts fmt w now lr now' live (Body (JObj d))) =
          Inl (keyed_error APIError d) \<and>
        fst (place_order fmt w now lr now' account_id contract_id order_type side size'
               limit_price stop_price trail_price custom_tag linked_order_id (Body (JObj d))) =
          Inl (keyed_error OrderError d) \<and>
        fst (search_orders fmt isoformat w now lr now' account_id start_timestamp end_timestamp
               (Body (JObj d))) =
          Inl (keyed_error OrderError d) \<and>
        fst (get_open_orders fmt w now lr now' account_id (Body (JObj d))) =
          Inl (keyed_error OrderError d) \<and>
        fst (cancel_order fmt w now lr now' account_id order_id (Body (JObj d))) =
          Inl (keyed_error OrderError d) \<and>
        fst (modify_order fmt w now lr now' account_id order_id new_size limit_price stop_price
               trail_price (Body (JObj d))) =
          Inl (keyed_error OrderError d) \<and>
        fst (get_open_positions fmt w now lr now' account_id (Body (JObj d))) =
          Inl (keyed_error PositionError d) \<and>
        fst (close_position fmt w now lr now' account_id contract_id (Body (JObj d))) =
          Inl (keyed_error PositionError d) \<and>
        fst (partial_close_position fmt w now lr now' account_id contract_id size'
               (Body (JObj d))) =
          Inl (keyed_error PositionError d) \<and>
        fst (search_trades fmt isoformat w now lr now' account_id start_timestamp end_timestamp
               (Body (JObj d))) =
          Inl (keyed_error APIError d)) \<and>
     (map_of d ''errorMessage'' = None \<longrightarrow>
        keyed_error kind d =
          TopStepXError kind (JStr ''Unknown error'') (dict_get d ''errorCode'' JNull)) \<and>
     (map_of d ''errorCode'' = None \<longrightarrow>
        keyed_error kind d =
          TopStepXError kind (dict_get d ''errorMessage'' (JStr ''Unknown error'')) JNull)"
proof -
  have f: "\<not> envelope_success d"
    using assms by (rule absent_key_fails)
  have l: "fst (login w (Body (JObj d)) now') = Inl (keyed_error AuthenticationError d)"
    using f by (simp add: login_def Let_def envelope_error_keyed)
  have c: "fst (call_endpoint fmt w now lr now' path payload k result (Body (JObj d))) =
           Inl (keyed_error k d)"
    if "fst (get_valid_token w now lr now') = Inr t" for path payload k result
    using that f by (rule call_endpoint_fails)
  have m: "map_of d ''errorMessage'' = None \<longrightarrow>
        keyed_error kind d =
          TopStepXError kind (JStr ''Unknown error'') (dict_get d ''errorCode'' JNull)"
    by (simp add: keyed_error_def dict_get_def)
  have e: "map_of d ''errorCode'' = None \<longrightarrow>
        keyed_error kind d =
          TopStepXError kind (dict_get d ''errorMessage'' (JStr ''Unknown error'')) JNull"
    by (simp add: keyed_error_def dict_get_def)
  show ?thesis
    unfolding get_active_accounts_def get_available_contracts_def place_order_def
      search_orders_def get_open_orders_def cancel_order_def modify_order_def
      get_open_positions_def close_position_def partial_close_position_def search_trades_def
    apply (intro conjI impI)
    using l m e apply (simp_all only: c simp_thms)
    done
qed

theorem absent_keys_fail_witness:
  "map_of ex_no_code ''errorCode'' = None \<and>
   map_of ex_no_code ''errorMessage'' = None \<and>
   map_of ex_no_code ''accounts'' = Some (JList [JObj [(''id'', JInt 1)]]) \<and>
   fst (get_valid_token ex_world 0 (Raised []) 0) = Inr (JStr ''abc'') \<and>
   fst (login ex_fresh (Body (JObj ex_no_code)) 0) =
     Inl (TopStepXError AuthenticationError (JStr ''Unknown error'') JNull) \<and>
   fst (get_active_accounts ex_fmt ex_world 0 (Raised []) 0 (Body (JObj ex_no_code))) =
     Inl (TopStepXError APIError (JStr ''Unknown error'') JNull)"
proof -
  have k: "map_of ex_no_code ''success'' = None \<or> map_of ex_no_code ''errorCode'' = None"
    by (simp add: ex_no_code_def)
  have s: "keyed_error kind ex_no_code = TopStepXError kind (JStr ''Unknown error'') JNull"
    for kind
    by (simp add: keyed_error_def ex_no_code_def)
  note a = absent_keys_fail [where d = ex_no_code and w = ex_fresh and now' = 0, OF k,
      THEN conjunct1]
  note b = absent_keys_fail [where d = ex_no_code and w = ex_world and now = 0 and
      lr = "Raised []" and now' = 0 and fmt = ex_fmt and t = "JStr ''abc''", OF k,
      THEN conjunct2, THEN conjunct1, rule_format, OF ex_world_token, THEN conjunct1]
  show ?thesis
    using a b ex_world_token by (simp add: s) (simp add: ex_no_code_def)
qed

section \<open>Login\<close>

text \<open>
  C2. Whatever the session, when the login request is answered with a response envelope
  in which \<^verbatim>\<open>success\<close> is not true or \<^verbatim>\<open>errorCode\<close> is not 0, \<^verbatim>\<open>_login\<close> raises
  \<^verbatim>\<open>AuthenticationError\<close> with the envelope's \<^verbatim>\<open>errorMessage\<close> and \<^verbatim>\<open>errorCode\<close>, and the
  authentication object, its token and its expiry included, is what it was before the
  call.
\<close>

theorem login_failure:
  assumes "typed_envelope d" and "\<not> spec_success d"
  shows "fst (login w (Body (JObj d)) now) = Inl (keyed_error AuthenticationError d) \<and>
         auth (snd (login w (Body (JObj d)) now)) = auth w"
  using assms
  by (simp add: login_def Let_def post_def envelope_success_typed envelope_error_keyed)

text \<open>The mocked login response of the specification, on a fresh session: the error
  carries \<^verbatim>\<open>bad key\<close> and 7, and the session is still unauthenticated.\<close>

theorem login_failure_witness:
  "typed_envelope ex_bad_key \<and> \<not> spec_success ex_bad_key \<and>
   fst (login ex_fresh (Body (JObj ex_bad_key)) 0) =
     Inl (TopStepXError AuthenticationError (JStr ''bad key'') (JInt 7)) \<and>
   token (auth (snd (login ex_fresh (Body (JObj ex_bad_key)) 0))) = JNull \<and>
   token_expires (auth (snd (login ex_fresh (Body (JObj ex_bad_key)) 0))) = None"
proof -
  have e: "typed_envelope ex_bad_key"
    by (simp add: typed_envelope_def ex_bad_key_def)
  have f: "\<not> spec_success ex_bad_key"
    by (simp add: spec_success_def ex_bad_key_def)
  have s: "keyed_error kind ex_bad_key = TopStepXError kind (JStr ''bad key'') (JInt 7)" for kind
    by (simp add: keyed_error_def ex_bad_key_def)
  show ?thesis
    using e f login_failure [OF e f, of ex_fresh 0] by (simp add: s ex_fresh_def init_def)
qed

text \<open>
  C5. When the login request is answered with an envelope in which \<^verbatim>\<open>success\<close> is true
  and \<^verbatim>\<open>errorCode\<close> is 0, and which has a \<^verbatim>\<open>token\<close> field, \<^verbatim>\<open>_login\<close> returns normally,
  sets the session's token to that field and sets the expiry to the instant read from
  the client's clock plus 24 hours (86400000000 microseconds); nothing of the reply
  enters the expiry. (Without the field, \<open>login_missing_token\<close>: \<^verbatim>\<open>KeyError\<close>.)
\<close>

theorem login_success:
  assumes "spec_success d" and "map_of d ''token'' = Some t"
  shows "fst (login w (Body (JObj d)) now) = Inr () \<and>
         auth (snd (login w (Body (JObj d)) now)) =
           (auth w)\<lparr>token := t, token_expires := Some (now + 24 * 3600000000)\<rparr>"
  using assms
  by (simp add: login_def Let_def post_def spec_success_envelope_success timedelta_hours_def
      TOKEN_VALIDITY_HOURS_def)

theorem login_success_witness:
  "spec_success ex_login_ok \<and> map_of ex_login_ok ''token'' = Some (JStr ''abc'') \<and>
   fst (login ex_fresh (Body (JObj ex_login_ok)) 1000000) = Inr () \<and>
   token (auth (snd (login ex_fresh (Body (JObj ex_login_ok)) 1000000))) = JStr ''abc'' \<and>
   token_expires (auth (snd (login ex_fresh (Body (JObj ex_login_ok)) 1000000))) =
     Some 86401000000"
proof -
  have s: "spec_success ex_login_ok"
    by (simp add: spec_success_def ex_login_ok_def)
  have t: "map_of ex_login_ok ''token'' = Some (JStr ''abc'')"
    by (simp add: ex_login_ok_def)
  show ?thesis
    using s t login_success [OF s t, of ex_fresh 1000000] by simp
qed

section \<open>The authorization header\<close>

text \<open>
  C6. \<^verbatim>\<open>get_headers\<close> returns the one-entry mapping from \<^verbatim>\<open>Authorization\<close> to \<^verbatim>\<open>Bearer\<close>,
  a space and the token, for whatever string the session holds as its token, in particular
  \<^verbatim>\<open>Bearer my_token\<close> for the token \<^verbatim>\<open>my_token\<close>. When the token is \<^verbatim>\<open>None\<close>, as in a session
  that never authenticated, the value is the rendering of that absent token, the text
  \<^verbatim>\<open>Bearer None\<close>. The result does not depend on the expiry, so no validity is checked,
  and the method returns nothing but the header: the session is not changed.
\<close>

theorem get_headers_bearer:
  "get_headers fmt (a\<lparr>token := JStr s\<rparr>) = [(''Authorization'', ''Bearer '' @ s)] \<and>
   get_headers fmt (a\<lparr>token := JStr ''my_token''\<rparr>) =
     [(''Authorization'', ''Bearer my_token'')] \<and>
   get_headers fmt (a\<lparr>token := JNull\<rparr>) = [(''Authorization'', ''Bearer None'')] \<and>
   get_headers fmt (init u k) = [(''Authorization'', ''Bearer None'')] \<and>
   get_headers fmt (a\<lparr>token_expires := e\<rparr>) = get_headers fmt a"
  by (simp add: get_headers_def py_str_def init_def)

section \<open>Request payloads\<close>

text \<open>
  C8. The payload of \<^verbatim>\<open>search_orders\<close> and of \<^verbatim>\<open>search_trades\<close> holds \<^verbatim>\<open>startTimestamp\<close>, the
  string \<^verbatim>\<open>start_timestamp.isoformat()\<close>. It holds the key \<^verbatim>\<open>endTimestamp\<close>, with the string
  \<^verbatim>\<open>end_timestamp.isoformat()\<close>, exactly when the caller gave an end timestamp; without
  one the key is absent, and its value is never \<^verbatim>\<open>None\<close>. This payload is the JSON body
  of the request either method sends once it has its token.
\<close>

theorem search_payload_timestamps:
  "map_of (search_payload isoformat account_id s e) ''startTimestamp'' =
     Some (JStr (isoformat s)) \<and>
   map_of (search_payload isoformat account_id s e) ''endTimestamp'' =
     map_option (\<lambda>x. JStr (isoformat x)) e \<and>
   ((map_of (search_payload isoformat account_id s e) ''endTimestamp'' = None) = (e = None)) \<and>
   map_of (search_payload isoformat account_id s e) ''endTimestamp'' \<noteq> Some JNull \<and>
   (fst (get_valid_token w now lr now') = Inr t \<longrightarrow>
      json_body (last (sent (snd (search_orders fmt isoformat w now lr now' account_id s e r)))) =
        Some (JObj (search_payload isoformat account_id s e)) \<and>
      json_body (last (sent (snd (search_trades fmt isoformat w now lr now' account_id s e r)))) =
        Some (JObj (search_payload isoformat account_id s e)))"
proof -
  have p: "map_of (search_payload isoformat account_id s e) ''startTimestamp'' =
             Some (JStr (isoformat s))"
    by (cases e) (simp_all add: search_payload_def)
  have q: "map_of (search_payload isoformat account_id s e) ''endTimestamp'' =
             map_option (\<lambda>x. JStr (isoformat x)) e"
    by (cases e) (simp_all add: search_payload_def)
  have q1: "(map_of (search_payload isoformat account_id s e) ''endTimestamp'' = None) = (e = None)"
    by (simp add: q)
  have q2: "map_of (search_payload isoformat account_id s e) ''endTimestamp'' \<noteq> Some JNull"
    unfolding q by (cases e) simp_all
  have r: "json_body (last (sent (snd (call_endpoint fmt w now lr now' path payload kind result r)))) =
             Some payload"
    if "fst (get_valid_token w now lr now') = Inr t" for path payload kind result
    by (simp add: call_endpoint_sent [OF that])
  show ?thesis
    unfolding search_orders_def search_trades_def
    using p q q1 q2 r by blast
qed

theorem search_payload_timestamps_witness:
  "fst (get_valid_token ex_world 0 (Raised []) 0) = Inr (JStr ''abc'') \<and>
   json_body (last (sent (snd (search_orders ex_fmt ex_isoformat ex_world 0 (Raised []) 0
                                 123 () None (Raised []))))) =
     Some (JObj [(''accountId'', JInt 123),
                 (''startTimestamp'', JStr ''2025-01-01T00:00:00'')]) \<and>
   json_body (last (sent (snd (search_trades ex_fmt ex_isoformat ex_world 0 (Raised []) 0
                                 123 () (Some ()) (Raised []))))) =
     Some (JObj [(''accountId'', JInt 123),
                 (''startTimestamp'', JStr ''2025-01-01T00:00:00''),
                 (''endTimestamp'', JStr ''2025-01-01T00:00:00'')])"
proof -
  note a = search_payload_timestamps [where isoformat = ex_isoformat and w = ex_world and
      now = 0 and lr = "Raised []" and now' = 0 and t = "JStr ''abc''" and fmt = ex_fmt and
      account_id = 123 and s = "()" and e = None and r = "Raised []"]
  note b = search_payload_timestamps [where isoformat = ex_isoformat and w = ex_world and
      now = 0 and lr = "Raised []" and now' = 0 and t = "JStr ''abc''" and fmt = ex_fmt and
      account_id = 123 and s = "()" and e = "Some ()" and r = "Raised []"]
  show ?thesis
    using ex_world_token a b by (simp add: search_payload_def ex_isoformat_def)
qed

text \<open>
  C9. The payload of \<^verbatim>\<open>modify_order\<close> always has the six keys \<^verbatim>\<open>accountId\<close>, \<^verbatim>\<open>orderId\<close>,
  \<^verbatim>\<open>size\<close>, \<^verbatim>\<open>limitPrice\<close>, \<^verbatim>\<open>stopPrice\<close> and \<^verbatim>\<open>trailPrice\<close>, and no other; an optional
  argument the caller left out is sent as \<^verbatim>\<open>None\<close> under its key, a given one as its
  value. This payload is the JSON body of the request the method sends once it has its
  token.
\<close>

theorem modify_payload_keys:
  "map fst (modify_payload account_id order_id new_size limit_price stop_price trail_price) =
     [''accountId'', ''orderId'', ''size'', ''limitPrice'', ''stopPrice'', ''trailPrice''] \<and>
   map_of (modify_payload account_id order_id new_size limit_price stop_price trail_price) =
     [''accountId'' \<mapsto> JInt account_id,
      ''orderId'' \<mapsto> JInt order_id,
      ''size'' \<mapsto> (case new_size of None \<Rightarrow> JNull | Some n \<Rightarrow> JInt n),
      ''limitPrice'' \<mapsto> (case limit_price of None \<Rightarrow> JNull | Some p \<Rightarrow> JFloat p),
      ''stopPrice'' \<mapsto> (case stop_price of None \<Rightarrow> JNull | Some p \<Rightarrow> JFloat p),
      ''trailPrice'' \<mapsto> (case trail_price of None \<Rightarrow> JNull | Some p \<Rightarrow> JFloat p)] \<and>
   (fst (get_valid_token w now lr now') = Inr t \<longrightarrow>
      json_body (last (sent (snd (modify_order fmt w now lr now' account_id order_id new_size
                                    limit_price stop_price trail_price r)))) =
        Some (JObj (modify_payload account_id order_id new_size limit_price stop_price
                      trail_price)))"
proof -
  have o: "opt_json f x = (case x of None \<Rightarrow> JNull | Some y \<Rightarrow> f y)" for f :: "'a \<Rightarrow> json" and x
    by (cases x) simp_all
  have k: "map fst (modify_payload account_id order_id new_size limit_price stop_price trail_price) =
     [''accountId'', ''orderId'', ''size'', ''limitPrice'', ''stopPrice'', ''trailPrice'']"
    by (simp add: modify_payload_def)
  have m: "map_of (modify_payload account_id order_id new_size limit_price stop_price trail_price) =
     [''accountId'' \<mapsto> JInt account_id,
      ''orderId'' \<mapsto> JInt order_id,
      ''size'' \<mapsto> (case new_size of None \<Rightarrow> JNull | Some n \<Rightarrow> JInt n),
      ''limitPrice'' \<mapsto> (case limit_price of None \<Rightarrow> JNull | Some p \<Rightarrow> JFloat p),
      ''stopPrice'' \<mapsto> (case stop_price of None \<Rightarrow> JNull | Some p \<Rightarrow> JFloat p),
      ''trailPrice'' \<mapsto> (case trail_price of None \<Rightarrow> JNull | Some p \<Rightarrow> JFloat p)]"
    unfolding modify_payload_def o by (rule ext) simp
  have r: "fst (get_valid_token w now lr now') = Inr t \<longrightarrow>
      json_body (last (sent (snd (modify_order fmt w now lr now' account_id order_id new_size
                                    limit_price stop_price trail_price r)))) =
        Some (JObj (modify_payload account_id order_id new_size limit_price stop_price
                      trail_price))"
    by (simp add: modify_order_def call_endpoint_sent)
  show ?thesis
    using k m r by blast
qed

theorem modify_payload_keys_witness:
  "fst (get_valid_token ex_world 0 (Raised []) 0) = Inr (JStr ''abc'') \<and>
   json_body (last (sent (snd (modify_order ex_fmt ex_world 0 (Raised []) 0 123 456
                                 None (Some 5000) None None (Raised []))))) =
     Some (JObj [(''accountId'', JInt 123), (''orderId'', JInt 456), (''size'', JNull),
                 (''limitPrice'', JFloat 5000), (''stopPrice'', JNull),
                 (''trailPrice'', JNull)])"
proof -
  note a = modify_payload_keys [where w = ex_world and now = 0 and lr = "Raised []" and
      now' = 0 and t = "JStr ''abc''" and fmt = ex_fmt and account_id = 123 and
      order_id = 456 and new_size = None and limit_price = "Some 5000" and stop_price = None and
      trail_price = None and r = "Raised []"]
  show ?thesis
    using ex_world_token a by (simp add: modify_payload_def)
qed

section \<open>The token lifecycle\<close>

text \<open>
  C3, amended. The validity predicate of the session is the negation of
  \<^verbatim>\<open>_is_token_expired\<close>, a function of the session and the clock that returns a boolean
  and nothing else. It is true if and only if the expiry is set and the current instant
  is strictly before the expiry minus five minutes; the token is not consulted, so that
  the answer is the same for every token. It is false on a session that never logged
  in, false when the expiry is three minutes ahead and true when it is ten minutes ahead.
  On a session whose token and expiry are both set or both unset this is: a token
  exists and the instant is strictly before the expiry minus five minutes. The test
  \<^verbatim>\<open>get_valid_token\<close> makes, \<^verbatim>\<open>not self.token or self._is_token_expired()\<close>, fails exactly
  when the token is neither \<^verbatim>\<open>None\<close> nor empty and the predicate is true.
\<close>

theorem token_validity:
  "(\<not> is_token_expired a now) =
     (\<exists>e. token_expires a = Some e \<and> now < e - 5 * 60000000) \<and>
   is_token_expired (a\<lparr>token := t\<rparr>) now = is_token_expired a now \<and>
   is_token_expired (init u k) now \<and>
   is_token_expired (a\<lparr>token_expires := Some (now + 3 * 60000000)\<rparr>) now \<and>
   \<not> is_token_expired (a\<lparr>token_expires := Some (now + 10 * 60000000)\<rparr>) now \<and>
   ((token a \<noteq> JNull) = (token_expires a \<noteq> None) \<longrightarrow>
      (\<not> is_token_expired a now) =
        (token a \<noteq> JNull \<and> (\<exists>e. token_expires a = Some e \<and> now < e - 5 * 60000000))) \<and>
   (\<not> (\<not> py_truthy (token a) \<or> is_token_expired a now)) =
     (py_truthy (token a) \<and> (\<exists>e. token_expires a = Some e \<and> now < e - 5 * 60000000))"
proof -
  have 1: "is_token_expired (a\<lparr>token := t\<rparr>) now = is_token_expired a now"
    by (simp add: is_token_expired_def)
  have 2: "is_token_expired (init u k) now"
    by (simp add: is_token_expired_def init_def)
  have 3: "is_token_expired (a\<lparr>token_expires := Some (now + 3 * 60000000)\<rparr>) now"
    by (simp add: is_token_expired_def timedelta_minutes_def TOKEN_REFRESH_MARGIN_MINUTES_def)
  have 4: "\<not> is_token_expired (a\<lparr>token_expires := Some (now + 10 * 60000000)\<rparr>) now"
    by (simp add: is_token_expired_def timedelta_minutes_def TOKEN_REFRESH_MARGIN_MINUTES_def)
  have 5: "(token a \<noteq> JNull) = (token_expires a \<noteq> None) \<longrightarrow>
      (\<not> is_token_expired a now) =
        (token a \<noteq> JNull \<and> (\<exists>e. token_expires a = Some e \<and> now < e - 5 * 60000000))"
    unfolding valid_iff [of a now] by auto
  have 6: "(\<not> (\<not> py_truthy (token a) \<or> is_token_expired a now)) =
     (py_truthy (token a) \<and> (\<exists>e. token_expires a = Some e \<and> now < e - 5 * 60000000))"
    unfolding valid_iff [of a now, symmetric] by auto
  show ?thesis
    using valid_iff [of a now] 1 2 3 4 5 6 by blast
qed

text \<open>
  The claim as first stated asks for an existing token. With an expiry ten minutes ahead
  and no token, \<^verbatim>\<open>_is_token_expired\<close> answers false: the predicate holds although no
  token exists. With the empty string as token and the expiry a day ahead, a token
  exists and the instant is before the margin, yet \<^verbatim>\<open>not self.token\<close> is true.
\<close>

theorem token_validity_counterexample:
  "token ex_no_token = JNull \<and> is_token_expired ex_no_token 0 = False \<and>
   token (auth ex_empty_world) = JStr [] \<and>
   is_token_expired (auth ex_empty_world) 0 = False \<and>
   py_truthy (token (auth ex_empty_world)) = False"
  by (simp add: ex_no_token_def ex_empty_world_def is_token_expired_def timedelta_minutes_def
      TOKEN_REFRESH_MARGIN_MINUTES_def)

theorem token_validity_witness:
  "(token (auth ex_world) \<noteq> JNull) = (token_expires (auth ex_world) \<noteq> None) \<and>
   is_token_expired (auth ex_world) 0 = False \<and>
   token (auth ex_world) = JStr ''abc'' \<and>
   token_expires (auth ex_world) = Some 86400000000 \<and>
   is_token_expired (auth ex_world) 86100000000 = True"
proof -
  have h: "(token (auth ex_world) \<noteq> JNull) = (token_expires (auth ex_world) \<noteq> None)"
    by (simp add: ex_world_def)
  note a = token_validity [where a = "auth ex_world" and now = 0, THEN conjunct2, THEN conjunct2,
      THEN conjunct2, THEN conjunct2, THEN conjunct2, THEN conjunct1, rule_format, OF h]
  note b = token_validity [where a = "auth ex_world" and now = 86100000000, THEN conjunct1]
  show ?thesis
    using h a b by (simp add: ex_world_def)
qed

text \<open>
  C4, amended. For every session whose token is present and not empty (true for
  Python), and for which the current instant is strictly before the expiry minus five
  minutes, \<^verbatim>\<open>get_valid_token\<close> returns the current token, sends no request and leaves the
  session as it is. Hence, when a first call has to log in and the login succeeds with
  a token that is not empty, that call sends exactly the login request, and a second
  call before the new expiry minus five minutes returns the same token and sends
  nothing: the two calls perform exactly one login exchange.
\<close>

theorem get_valid_token_fresh:
  "(py_truthy (token (auth w)) \<and> token_expires (auth w) = Some e \<and> now < e - 5 * 60000000 \<longrightarrow>
      get_valid_token w now r now' = (Inr (token (auth w)), w)) \<and>
   ((\<not> py_truthy (token (auth w)) \<or> is_token_expired (auth w) now) \<and>
    spec_success d \<and> map_of d ''token'' = Some t \<and> py_truthy t \<and>
    later < now' + 24 * 3600000000 - 5 * 60000000 \<longrightarrow>
      fst (get_valid_token w now (Body (JObj d)) now') = Inr t \<and>
      sent (snd (get_valid_token w now (Body (JObj d)) now')) =
        sent w @ [login_request (auth w)] \<and>
      get_valid_token (snd (get_valid_token w now (Body (JObj d)) now')) later r' later' =
        (Inr t, snd (get_valid_token w now (Body (JObj d)) now')))"
proof (intro conjI impI)
  assume "py_truthy (token (auth w)) \<and> token_expires (auth w) = Some e \<and>
          now < e - 5 * 60000000"
  then show "get_valid_token w now r now' = (Inr (token (auth w)), w)"
    by (simp add: get_valid_token_valid)
next
  assume a: "(\<not> py_truthy (token (auth w)) \<or> is_token_expired (auth w) now) \<and>
    spec_success d \<and> map_of d ''token'' = Some t \<and> py_truthy t \<and>
    later < now' + 24 * 3600000000 - 5 * 60000000"
  then have g: "get_valid_token w now (Body (JObj d)) now' =
         (Inr t, \<lparr>auth = (auth w)\<lparr>token := t, token_expires := Some (now' + 24 * 3600000000)\<rparr>,
                  sent = sent w @ [login_request (auth w)]\<rparr>)"
    by (simp add: get_valid_token_login)
  show "fst (get_valid_token w now (Body (JObj d)) now') = Inr t"
    by (simp add: g)
  show "sent (snd (get_valid_token w now (Body (JObj d)) now')) =
        sent w @ [login_request (auth w)]"
    by (simp add: g)
  show "get_valid_token (snd (get_valid_token w now (Body (JObj d)) now')) later r' later' =
        (Inr t, snd (get_valid_token w now (Body (JObj d)) now'))"
    unfolding g using a
    by (simp add: get_valid_token_valid [where e = "now' + 24 * 3600000000"])
qed

text \<open>
  The claim as first stated asks only for a present token. With the empty string as
  token and the expiry a day ahead, \<^verbatim>\<open>get_valid_token\<close> logs in and returns the new
  token; and two calls in a row on a fresh session, whose logins succeed with an empty
  token, send two login requests.
\<close>

theorem get_valid_token_fresh_counterexample:
  "token (auth ex_empty_world) = JStr [] \<and>
   token_expires (auth ex_empty_world) = Some 86400000000 \<and>
   is_token_expired (auth ex_empty_world) 0 = False \<and>
   fst (get_valid_token ex_empty_world 0 (Body (JObj ex_login_ok)) 0) = Inr (JStr ''abc'') \<and>
   sent (snd (get_valid_token ex_empty_world 0 (Body (JObj ex_login_ok)) 0)) =
     [login_request (auth ex_empty_world)] \<and>
   fst (get_valid_token ex_fresh 0 (Body (JObj ex_empty_token)) 0) = Inr (JStr []) \<and>
   sent (snd (get_valid_token (snd (get_valid_token ex_fresh 0 (Body (JObj ex_empty_token)) 0))
                1 (Body (JObj ex_empty_token)) 1)) =
     [login_request (auth ex_fresh), login_request (auth ex_fresh)]"
proof -
  define w1 where "w1 = snd (get_valid_token ex_fresh 0 (Body (JObj ex_empty_token)) 0)"
  have s: "spec_success ex_login_ok" "map_of ex_login_ok ''token'' = Some (JStr ''abc'')"
    "spec_success ex_empty_token" "map_of ex_empty_token ''token'' = Some (JStr [])"
    by (simp_all add: spec_success_def ex_login_ok_def ex_empty_token_def)
  have a: "\<not> py_truthy (token (auth ex_empty_world)) \<or> is_token_expired (auth ex_empty_world) 0"
    "\<not> py_truthy (token (auth ex_fresh)) \<or> is_token_expired (auth ex_fresh) 0"
    by (simp_all add: ex_empty_world_def ex_fresh_def init_def)
  have e: "token (auth ex_empty_world) = JStr []"
    "token_expires (auth ex_empty_world) = Some 86400000000"
    "is_token_expired (auth ex_empty_world) 0 = False"
    "sent ex_empty_world = []"
    by (simp_all add: ex_empty_world_def is_token_expired_def timedelta_minutes_def
        TOKEN_REFRESH_MARGIN_MINUTES_def)
  have f: "sent ex_fresh = []"
    by (simp add: ex_fresh_def)
  note g1 = get_valid_token_login [OF a(1) s(1) s(2), of 0]
  note g2 = get_valid_token_login [OF a(2) s(3) s(4), of 0]
  have w1: "token (auth w1) = JStr []" "sent w1 = [login_request (auth ex_fresh)]"
    "login_request (auth w1) = login_request (auth ex_fresh)"
    by (simp_all add: w1_def g2 f login_request_def)
  have b: "\<not> py_truthy (token (auth w1)) \<or> is_token_expired (auth w1) 1"
    by (simp add: w1)
  note g3 = get_valid_token_login [OF b s(3) s(4), of 1]
  have "sent (snd (get_valid_token w1 1 (Body (JObj ex_empty_token)) 1)) =
          [login_request (auth ex_fresh), login_request (auth ex_fresh)]"
    by (simp add: g3 w1)
  then show ?thesis
    unfolding w1_def by (simp add: e f g1 g2)
qed

theorem get_valid_token_fresh_witness:
  "py_truthy (token (auth ex_world)) \<and> token_expires (auth ex_world) = Some 86400000000 \<and>
   get_valid_token ex_world 0 (Raised []) 0 = (Inr (JStr ''abc''), ex_world) \<and>
   spec_success ex_login_ok \<and> map_of ex_login_ok ''token'' = Some (JStr ''abc'') \<and>
   fst (get_valid_token ex_fresh 0 (Body (JObj ex_login_ok)) 0) = Inr (JStr ''abc'') \<and>
   sent (snd (get_valid_token ex_fresh 0 (Body (JObj ex_login_ok)) 0)) =
     [login_request (auth ex_fresh)] \<and>
   sent (snd (get_valid_token (snd (get_valid_token ex_fresh 0 (Body (JObj ex_login_ok)) 0))
                1 (Raised []) 1)) =
     [login_request (auth ex_fresh)]"
proof -
  have h1: "py_truthy (token (auth ex_world)) \<and> token_expires (auth ex_world) = Some 86400000000 \<and>
            (0::int) < 86400000000 - 5 * 60000000"
    by (simp add: ex_world_def)
  have h2: "(\<not> py_truthy (token (auth ex_fresh)) \<or> is_token_expired (auth ex_fresh) 0) \<and>
    spec_success ex_login_ok \<and> map_of ex_login_ok ''token'' = Some (JStr ''abc'') \<and>
    py_truthy (JStr ''abc'') \<and> (1::int) < 0 + 24 * 3600000000 - 5 * 60000000"
    by (simp add: ex_fresh_def init_def spec_success_def ex_login_ok_def)
  note a = get_valid_token_fresh [where w = ex_world and e = 86400000000 and now = 0 and
      r = "Raised []" and now' = 0, THEN conjunct1, rule_format, OF h1]
  note b = get_valid_token_fresh [where w = ex_fresh and now = 0 and d = ex_login_ok and
      t = "JStr ''abc''" and now' = 0 and later = 1 and r' = "Raised []" and later' = 1,
      THEN conjunct2, rule_format, OF h2]
  have f: "sent ex_fresh = []"
    by (simp add: ex_fresh_def)
  have k: "token (auth ex_world) = JStr ''abc''"
    by (simp add: ex_world_def)
  show ?thesis
    using h1 h2 a b by (simp add: f k)
qed

text \<open>
  C7, amended. In every state reachable from construction through \<^verbatim>\<open>get_valid_token\<close>,
  \<^verbatim>\<open>_login\<close>, \<^verbatim>\<open>validate_token\<close> and the methods of the client (\<^verbatim>\<open>get_headers\<close> and
  \<^verbatim>\<open>_is_token_expired\<close> change nothing), a token that is not \<^verbatim>\<open>None\<close> comes with an expiry
  that is not \<^verbatim>\<open>None\<close>; and the token is not \<^verbatim>\<open>None\<close> if and only if the expiry is not
  \<^verbatim>\<open>None\<close> as long as no login reply carried \<^verbatim>\<open>None\<close> as its token. The two fields change
  only together and only in a successful login: \<^verbatim>\<open>_login\<close> either leaves the object as it
  is or returns normally having stored the reply's token and the instant plus 24
  hours; \<^verbatim>\<open>get_valid_token\<close> changes the object only through \<^verbatim>\<open>_login\<close>, and
  \<^verbatim>\<open>validate_token\<close> does not change it.
\<close>

theorem token_expiry_invariant:
  "(reachable any_token w \<longrightarrow>
      (token (auth w) \<noteq> JNull \<longrightarrow> token_expires (auth w) \<noteq> None)) \<and>
   (reachable token_not_null w \<longrightarrow>
      ((token (auth w) \<noteq> JNull) = (token_expires (auth w) \<noteq> None))) \<and>
   (auth (snd (login w r now)) = auth w \<or>
    (\<exists>d t. r = Body (JObj d) \<and> envelope_success d \<and> map_of d ''token'' = Some t \<and>
       fst (login w r now) = Inr () \<and>
       auth (snd (login w r now)) =
         (auth w)\<lparr>token := t, token_expires := Some (now + 24 * 3600000000)\<rparr>)) \<and>
   (auth (snd (get_valid_token w now0 r now)) = auth w \<or>
    auth (snd (get_valid_token w now0 r now)) = auth (snd (login w r now))) \<and>
   auth (snd (validate_token fmt w sr)) = auth w"
  using reachable_token_expiry [of any_token w] reachable_token_both [of w]
    login_auth [of w r now] get_valid_token_auth [of w now0 r now]
  by (simp add: validate_token_auth timedelta_hours_def TOKEN_VALIDITY_HOURS_def)

text \<open>
  The claim as first stated has the equivalence in every reachable state. A login reply
  \<^verbatim>\<open>{"success": true, "errorCode": 0, "token": null}\<close> on a fresh session leaves the token
  \<^verbatim>\<open>None\<close> and sets the expiry.
\<close>

theorem token_expiry_invariant_counterexample:
  "reachable any_token (snd (login ex_fresh (Body (JObj ex_null_token)) 0)) \<and>
   token (auth (snd (login ex_fresh (Body (JObj ex_null_token)) 0))) = JNull \<and>
   token_expires (auth (snd (login ex_fresh (Body (JObj ex_null_token)) 0))) = Some 86400000000"
proof -
  have t: "token_field any_token (Body (JObj ex_null_token))"
    by (simp add: token_field_def any_token_def ex_null_token_def)
  have r: "reachable any_token (snd (login ex_fresh (Body (JObj ex_null_token)) 0))"
    unfolding ex_fresh_def by (rule reach_login [OF reach_init t])
  have s: "spec_success ex_null_token" "map_of ex_null_token ''token'' = Some JNull"
    by (simp_all add: spec_success_def ex_null_token_def)
  have e: "envelope_success ex_null_token"
    using s(1) by (rule spec_success_envelope_success)
  show ?thesis
    using r s(2) e
    by (simp add: login_def Let_def post_def timedelta_hours_def TOKEN_VALIDITY_HOURS_def)
qed

theorem token_expiry_invariant_witness:
  "reachable token_not_null (snd (login ex_fresh (Body (JObj ex_login_ok)) 0)) \<and>
   reachable any_token (snd (login ex_fresh (Body (JObj ex_login_ok)) 0)) \<and>
   token (auth (snd (login ex_fresh (Body (JObj ex_login_ok)) 0))) \<noteq> JNull \<and>
   token_expires (auth (snd (login ex_fresh (Body (JObj ex_login_ok)) 0))) \<noteq> None"
proof -
  have t: "token_field token_not_null (Body (JObj ex_login_ok))"
    by (simp add: token_field_def token_not_null_def ex_login_ok_def)
  have t': "token_field any_token (Body (JObj ex_login_ok))"
    by (simp add: token_field_def any_token_def ex_login_ok_def)
  have r: "reachable token_not_null (snd (login ex_fresh (Body (JObj ex_login_ok)) 0))"
    unfolding ex_fresh_def by (rule reach_login [OF reach_init t])
  have r': "reachable any_token (snd (login ex_fresh (Body (JObj ex_login_ok)) 0))"
    unfolding ex_fresh_def by (rule reach_login [OF reach_init t'])
  have e: "envelope_success ex_login_ok"
    by (rule spec_success_envelope_success) (simp add: spec_success_def ex_login_ok_def)
  have k: "token (auth (snd (login ex_fresh (Body (JObj ex_login_ok)) 0))) \<noteq> JNull"
    using e by (simp add: login_def Let_def post_def) (simp add: ex_login_ok_def)
  note i = token_expiry_invariant [where w = "snd (login ex_fresh (Body (JObj ex_login_ok)) 0)",
      THEN conjunct1, rule_format, OF r' k]
  note j = token_expiry_invariant [where w = "snd (login ex_fresh (Body (JObj ex_login_ok)) 0)",
      THEN conjunct2, THEN conjunct1, rule_format, OF r]
  show ?thesis
    using r r' k i j by simp
qed

end
